theory Spec2Isabelle
  imports Main "HOL-Library.Word"
begin

unbundle bit_operations_syntax

section \<open>The machine: memory-mapped registers of the TM4C123\<close>

text \<open>
  The five lessons are bare-metal programs for a 32-bit Cortex-M4. Every register they
  touch is a 32-bit cell reached through a volatile pointer; \<open>unsigned int\<close> and
  \<open>unsigned long\<close> are both 32 bits wide on this target, \<open>char\<close> is 8 bits wide.
  A store to a register is modelled as the C assignment it is: the cell takes the value
  written, all 32 bits of it.
\<close>

type_synonym u32 = "32 word"

record regs =
  RCGCGPIO :: u32  \<comment> \<open>\<open>SYSCTL->RCGCGPIO\<close>\<close>
  LOCK :: u32      \<comment> \<open>\<open>GPIOF->LOCK\<close>\<close>
  CR :: u32        \<comment> \<open>\<open>GPIOF->CR\<close>\<close>
  PUR :: u32       \<comment> \<open>\<open>GPIOF->PUR\<close>\<close>
  DIR :: u32       \<comment> \<open>\<open>GPIOF->DIR\<close>\<close>
  DEN :: u32       \<comment> \<open>\<open>GPIOF->DEN\<close>\<close>
  DATA :: u32      \<comment> \<open>\<open>GPIOF->DATA\<close>\<close>
  LOAD :: u32      \<comment> \<open>\<open>SysTick->LOAD\<close>\<close>
  CTRL :: u32      \<comment> \<open>\<open>SysTick->CTRL\<close>\<close>
  VAL :: u32       \<comment> \<open>\<open>SysTick->VAL\<close>\<close>

section \<open>LESSON1 and LESSON3: the busy-wait delay\<close>

text \<open>
  LESSON3:
  \<^verbatim>\<open>void Delay(unsigned long counter){ unsigned long i=0; for (i=0;i<counter;i++){}; }\<close>
  The loop is the recursion \<open>Delay_loop\<close> on the loop variable; the function returns
  nothing, the model returns the value \<open>i\<close> has when the loop is left.
\<close>

function Delay_loop :: "u32 \<Rightarrow> u32 \<Rightarrow> u32" where
  "Delay_loop counter i = (if i < counter then Delay_loop counter (i + 1) else i)"
  by pat_completeness auto
termination
proof (relation "measure (\<lambda>(counter, i). unat counter - unat i)")
  show "wf (measure (\<lambda>(counter :: u32, i :: u32). unat counter - unat i))"
    by simp
next
  fix counter i :: u32
  assume below: "i < counter"
  then have "unat i < unat counter"
    by (simp add: word_less_nat_alt)
  moreover have "i < i + 1"
  proof (rule ccontr)
    assume "\<not> i < i + 1"
    then have "i + 1 \<le> i" by simp
    then have "i = - 1" by (rule inc_less_eq_triv_imp)
    with below show False by simp
  qed
  then have "unat i < unat (i + 1)"
    by (simp add: word_less_nat_alt)
  ultimately show "((counter, i + 1), (counter, i))
      \<in> measure (\<lambda>(counter, i). unat counter - unat i)"
    by simp
qed

declare Delay_loop.simps [simp del]

definition Delay :: "u32 \<Rightarrow> u32" where
  "Delay counter = Delay_loop counter 0"

text \<open>
  LESSON1: \<^verbatim>\<open>unsigned long j=0; void Delay(void){ for (j=0; j<DELAY_VALUE;j++){}; }\<close>
  with \<^verbatim>\<open>#define DELAY_VALUE 1000000\<close>. The loop variable is the global \<open>j\<close>: the
  model takes its value on entry and returns its value on exit.
\<close>

definition DELAY_VALUE :: u32 where
  "DELAY_VALUE = 1000000"

definition Delay_lesson1 :: "u32 \<Rightarrow> u32" where
  "Delay_lesson1 j = Delay_loop DELAY_VALUE 0"

section \<open>Reading the button on PF4\<close>

text \<open>
  LESSON2 and LESSON3 configure PF4 as an input with its pull-up enabled (\<open>PUR |= 0x10\<close>,
  \<open>DIR |= 0x02\<close> leaves bit 4 of \<open>DIR\<close> clear, \<open>DEN |= 0x12\<close>) and read the button as
  \<open>GPIOF->DATA & 0x10\<close>. Bit 4 of a read of \<open>DATA\<close> is therefore the level of the pin at
  the moment of the read, not a stored bit: low (0) while the button is held down, high (1)
  at rest. The argument \<open>sw1\<close> says whether the button is held down at that moment; the
  other bits of the read are the bits of the cell.
\<close>

definition read_DATA :: "bool \<Rightarrow> 'a regs_scheme \<Rightarrow> u32" where
  "read_DATA sw1 r = (if sw1 then DATA r AND NOT 0x10 else DATA r OR 0x10)"


section \<open>LESSON2: the button drives the red LED\<close>

text \<open>
  \<^verbatim>\<open>while(1) { state = GPIOF -> DATA & 0x10; GPIOF -> DATA = (~state >>3); }\<close>
  One iteration of the loop; \<open>~\<close> binds tighter than \<open>>>\<close>, and \<open>state\<close> is unsigned,
  so the shift is logical.
\<close>

definition loop_lesson2 :: "bool \<Rightarrow> regs \<Rightarrow> regs" where
  "loop_lesson2 sw1 r =
     (let state = read_DATA sw1 r AND 0x10
      in r\<lparr>DATA := drop_bit 3 (NOT state)\<rparr>)"

section \<open>LESSON3: the debounced toggle\<close>

text \<open>
  \<^verbatim>\<open>#define SYSTEM_CLOCK_FREQUENCY 16000000\<close> and
  \<^verbatim>\<open>#define DELAY_DEBOUNCE SYSTEM_CLOCK_FREQUENCY/1000\<close>: a division of two \<open>int\<close>
  constants, both positive. The macro is used once, as \<open>Delay(DELAY_DEBOUNCE)\<close>, where
  the quotient is converted to \<open>unsigned long\<close>.
\<close>

definition SYSTEM_CLOCK_FREQUENCY :: int where
  "SYSTEM_CLOCK_FREQUENCY = 16000000"

definition DELAY_DEBOUNCE :: int where
  "DELAY_DEBOUNCE = SYSTEM_CLOCK_FREQUENCY div 1000"

text \<open>The program state: the registers and \<open>static char flag\<close> of \<open>main\<close>.\<close>

record lesson3 = regs +
  flag :: "8 word"

text \<open>
  The set-up of \<open>main\<close>, steps 1 to 5, and the initial value of \<open>flag\<close>.
\<close>

definition init_lesson3 :: "regs \<Rightarrow> lesson3" where
  "init_lesson3 r =
     regs.extend
       (r\<lparr>RCGCGPIO := RCGCGPIO r OR 0x20,
          LOCK := 0x4C4F434B,
          CR := 0x01,
          PUR := PUR r OR 0x10,
          DIR := DIR r OR 0x02,
          DEN := DEN r OR 0x12\<rparr>)
       (lesson3.fields 0)"

text \<open>
  What the button does during one iteration of the loop: whether it is held down when
  \<open>state\<close> is read (line 38), and whether it is held down after the debounce delay, when
  \<open>GPIOF->DATA ^= ...\<close> reads the register again (line 44).
\<close>

record sample =
  at_poll :: bool
  after_delay :: bool

text \<open>
  One iteration of \<open>while(1)\<close>:
  \<^verbatim>\<open>
  state = GPIOF->DATA & 0x10;
  if (state == 0){
      Delay(DELAY_DEBOUNCE);
      if((flag ==0) && (state == 0)){ GPIOF->DATA ^= (~state >> 3); flag = 1; }
  }
  else{ flag=0; }
  \<close>
  \<open>state\<close> is assigned once, before the delay; the test after the delay reads the
  variable, not the register.
\<close>

definition loop_lesson3 :: "sample \<Rightarrow> lesson3 \<Rightarrow> lesson3" where
  "loop_lesson3 x s =
     (let state = read_DATA (at_poll x) s AND 0x10
      in if state = 0
         then (let i = Delay (word_of_int DELAY_DEBOUNCE)
               in if flag s = 0 \<and> state = 0
                  then s\<lparr>DATA := read_DATA (after_delay x) s XOR drop_bit 3 (NOT state),
                         flag := 1\<rparr>
                  else s)
         else s\<lparr>flag := 0\<rparr>)"

text \<open>The loop over a finite sequence of samples, one per iteration.\<close>

fun run_lesson3 :: "sample list \<Rightarrow> lesson3 \<Rightarrow> lesson3" where
  "run_lesson3 [] s = s"
| "run_lesson3 (x # xs) s = run_lesson3 xs (loop_lesson3 x s)"

text \<open>
  The red LED is PF1. An iteration toggles it when bit 1 of \<open>DATA\<close> after the iteration
  differs from bit 1 before; \<open>toggles\<close> counts these iterations along a run.
\<close>

definition toggled :: "lesson3 \<Rightarrow> lesson3 \<Rightarrow> bool" where
  "toggled s s' = (bit (DATA s') 1 \<noteq> bit (DATA s) 1)"

fun toggles :: "sample list \<Rightarrow> lesson3 \<Rightarrow> nat" where
  "toggles [] s = 0"
| "toggles (x # xs) s =
     (if toggled s (loop_lesson3 x s) then 1 else 0) + toggles xs (loop_lesson3 x s)"

text \<open>A sample of a held button, and a sample of a button at rest.\<close>

definition held :: "sample \<Rightarrow> bool" where
  "held x = (at_poll x \<and> after_delay x)"

definition at_rest :: "sample \<Rightarrow> bool" where
  "at_rest x = (\<not> at_poll x \<and> \<not> after_delay x)"

section \<open>LESSON6: the SysTick interrupt toggles the green LED\<close>

text \<open>
  The set-up of \<open>main\<close>:
  \<^verbatim>\<open>
  SYSCTL -> RCGCGPIO |= 0x20; GPIOF -> DIR |=0x08; GPIOF -> DEN |= 0x08;
  SysTick -> LOAD = 15999999; SysTick -> CTRL = 7; SysTick -> VAL = 0;
  \<close>
\<close>

definition init_lesson6 :: "regs \<Rightarrow> regs" where
  "init_lesson6 r =
     r\<lparr>RCGCGPIO := RCGCGPIO r OR 0x20,
       DIR := DIR r OR 0x08,
       DEN := DEN r OR 0x08,
       LOAD := 15999999,
       CTRL := 7,
       VAL := 0\<rparr>"

text \<open>\<^verbatim>\<open>void SysTick_Handler(void){ GPIOF -> DATA ^=8; }\<close>\<close>

definition SysTick_Handler :: "regs \<Rightarrow> regs" where
  "SysTick_Handler r = r\<lparr>DATA := DATA r XOR 8\<rparr>"

section \<open>LESSON5: the polled SysTick flag\<close>

text \<open>
  The set-up of \<open>main\<close>:
  \<^verbatim>\<open>
  SYSCTL -> RCGCGPIO |= 0x20; GPIOF -> DIR |=0x08; GPIOF -> DEN |=0x08;
  SysTick -> LOAD = 15999999; SysTick -> CTRL = 5; SysTick -> VAL =0;
  \<close>
\<close>

definition init_lesson5 :: "regs \<Rightarrow> regs" where
  "init_lesson5 r =
     r\<lparr>RCGCGPIO := RCGCGPIO r OR 0x20,
       DIR := DIR r OR 0x08,
       DEN := DEN r OR 0x08,
       LOAD := 15999999,
       CTRL := 5,
       VAL := 0\<rparr>"

text \<open>
  Modelled from the spec: the end of a reload period, an event of the SysTick hardware,
  which no source file of the repository contains. The spec's data model gives the timer
  an "elapsed flag (latched until consumed)", and its polled mode checks "a hardware
  countdown-complete status bit", the bit 16 of \<open>CTRL\<close> that the loop tests. So the end of
  a period sets bit 16 of \<open>CTRL\<close>, and the bit stays set until it is consumed.
\<close>

definition period_ends :: "regs \<Rightarrow> regs" where
  "period_ends r = r\<lparr>CTRL := CTRL r OR 0x10000\<rparr>"

text \<open>
  Modelled from the spec: a read of \<open>SysTick->CTRL\<close> as the hardware answers it. The spec
  treats the status bit "as a one-shot read (reading it does not require explicit
  clearing in the reference hardware)": the read returns the register as it is and
  leaves bit 16 clear.
\<close>

definition read_CTRL :: "regs \<Rightarrow> u32 \<times> regs" where
  "read_CTRL r = (CTRL r, r\<lparr>CTRL := CTRL r AND NOT 0x10000\<rparr>)"

text \<open>
  One iteration of \<open>while (1)\<close>:
  \<^verbatim>\<open>if(SysTick -> CTRL & 0X10000){ GPIOF ->DATA ^=8; }\<close>
  \<open>elapsed\<close> is the value of the condition, \<open>loop_lesson5\<close> the iteration.
\<close>

definition elapsed :: "regs \<Rightarrow> bool" where
  "elapsed r = (fst (read_CTRL r) AND 0x10000 \<noteq> 0)"

definition loop_lesson5 :: "regs \<Rightarrow> regs" where
  "loop_lesson5 r =
     (let (ctrl, r') = read_CTRL r
      in if ctrl AND 0x10000 \<noteq> 0 then r'\<lparr>DATA := DATA r' XOR 8\<rparr> else r')"

text \<open>
  A run of the polled program is an interleaving of two kinds of events: the timer
  finishing a reload period, and the program executing one iteration of its loop.
\<close>

datatype event = Period | Poll

fun run_lesson5 :: "event list \<Rightarrow> regs \<Rightarrow> regs" where
  "run_lesson5 [] r = r"
| "run_lesson5 (Period # es) r = run_lesson5 es (period_ends r)"
| "run_lesson5 (Poll # es) r = run_lesson5 es (loop_lesson5 r)"

text \<open>The number of iterations of a run whose elapsed check is true.\<close>

fun observed :: "event list \<Rightarrow> regs \<Rightarrow> nat" where
  "observed [] r = 0"
| "observed (Period # es) r = observed es (period_ends r)"
| "observed (Poll # es) r = (if elapsed r then 1 else 0) + observed es (loop_lesson5 r)"

text \<open>
  An iteration of the loop costs less than one period when no two periods end without
  an iteration between them; the run has seen all its periods when an iteration follows
  the last one too. Together: every \<open>Period\<close> is directly followed by a \<open>Poll\<close>.
\<close>

fun paced :: "event list \<Rightarrow> bool" where
  "paced [] = True"
| "paced (Poll # es) = paced es"
| "paced (Period # Poll # es) = paced es"
| "paced (Period # es) = False"

text \<open>A register file with every cell clear, to run the programs on.\<close>

definition all_clear :: regs where
  "all_clear = \<lparr>RCGCGPIO = 0, LOCK = 0, CR = 0, PUR = 0, DIR = 0, DEN = 0, DATA = 0,
                 LOAD = 0, CTRL = 0, VAL = 0\<rparr>"

section \<open>The busy-wait delay returns\<close>


lemma Delay_loop_exit: "i \<le> counter \<Longrightarrow> Delay_loop counter i = counter"
proof (induction counter i rule: Delay_loop.induct)
  case (1 counter i)
  show ?case
  proof (cases "i < counter")
    case True
    then have "i + 1 \<le> counter" by (rule inc_le)
    with 1 True have "Delay_loop counter (i + 1) = counter" by simp
    with True show ?thesis by (subst Delay_loop.simps) simp
  next
    case False
    with 1 have "i = counter" by simp
    then show ?thesis by (subst Delay_loop.simps) simp
  qed
qed

text \<open>
  C8. The busy-wait delay terminates for every requested iteration count:
  \<open>Delay_loop\<close> is a total function (its termination proof gives the measure
  \<open>counter - i\<close>, which every increment of the unsigned counter lowers, since
  \<open>i < counter\<close> excludes the wrap-around of \<open>i + 1\<close>), and the loop started at 0 is
  left with the counter equal to the bound, for LESSON3's \<open>Delay(counter)\<close> at every
  \<open>counter\<close> and for LESSON1's \<open>Delay()\<close> at every value of the global \<open>j\<close> on entry.
\<close>

theorem Delay_returns:
  "Delay counter = counter \<and> Delay_lesson1 j = 1000000"
  by (simp add: Delay_def Delay_lesson1_def DELAY_VALUE_def Delay_loop_exit)

section \<open>Bits of the constants the programs use\<close>

lemma and_0x10_iff: "(d :: u32) AND 0x10 = 0 \<longleftrightarrow> \<not> bit d 4"
proof -
  have "d AND 0x10 = d AND 2 ^ 4" by simp
  also have "\<dots> = 0 \<longleftrightarrow> \<not> bit d 4"
    by (simp only: and_exp_eq_0_iff_not_bit)
  finally show ?thesis .
qed

lemma bit_0x10: "bit (0x10 :: u32) n = (n = 4)"
proof -
  have "(0x10 :: u32) = 2 ^ 4" by simp
  then show ?thesis by (simp only: bit_exp_iff) auto
qed

lemma bit_not_0x10: "bit (NOT 0x10 :: u32) n = (n < 32 \<and> n \<noteq> 4)"
proof -
  have "(NOT 0x10 :: u32) = NOT (2 ^ 4)" by simp
  then show ?thesis by (simp only: bit_not_iff bit_exp_iff) auto
qed

lemma bit_xor_mask_pressed:
  "bit (d XOR 0x1FFFFFFF :: u32) n = (if n < 29 then \<not> bit d n else bit d n)"
proof -
  have "(0x1FFFFFFF :: u32) = mask 29" by (simp add: mask_eq_exp_minus_1)
  then have "bit (d XOR 0x1FFFFFFF) n = (bit d n \<noteq> (n < 32 \<and> n < 29))"
    by (simp only: bit_xor_iff bit_mask_iff) simp
  then show ?thesis by auto
qed

lemma bit_xor_8: "bit (d XOR 8 :: u32) n = (if n = 3 then \<not> bit d 3 else bit d n)"
proof -
  have "(8 :: u32) = 2 ^ 3" by simp
  then have "bit (d XOR 8) n = (bit d n \<noteq> (n < 32 \<and> n = 3))"
    by (simp only: bit_xor_iff bit_exp_iff) simp
  then show ?thesis by auto
qed

lemma xor_8_twice: "((d :: u32) XOR 8) XOR 8 = d"
  by (simp add: xor.assoc)

lemma mask_pressed: "drop_bit 3 (NOT (0 :: u32)) = 0x1FFFFFFF"
  by code_simp

lemma mask_released: "drop_bit 3 (NOT (0x10 :: u32)) = 0x1FFFFFFD"
  by code_simp

section \<open>What a read of the button returns\<close>

lemma bit_read_DATA:
  "bit (read_DATA sw1 r) n = (if n = 4 then \<not> sw1 else bit (DATA r) n)"
proof (cases sw1)
  case True
  then have "bit (read_DATA sw1 r) n = (bit (DATA r) n \<and> n < 32 \<and> n \<noteq> 4)"
    by (simp only: read_DATA_def if_True bit_and_iff bit_not_0x10)
  with True show ?thesis
    by (auto dest: bit_imp_le_length)
next
  case False
  then have "bit (read_DATA sw1 r) n = (bit (DATA r) n \<or> n = 4)"
    by (simp only: read_DATA_def if_False bit_or_iff bit_0x10)
  with False show ?thesis
    by auto
qed

lemma state_zero_iff: "read_DATA sw1 r AND 0x10 = 0 \<longleftrightarrow> sw1"
  by (simp add: and_0x10_iff bit_read_DATA)

lemma state_pressed: "read_DATA True r AND 0x10 = 0"
  by (simp add: state_zero_iff)

lemma state_released: "read_DATA False r AND 0x10 = 0x10"
proof (rule bit_eqI)
  fix n
  show "bit (read_DATA False r AND 0x10) n = bit (0x10 :: u32) n"
    by (simp only: bit_and_iff bit_read_DATA bit_0x10) auto
qed

section \<open>The three outcomes of an iteration of LESSON3\<close>

lemma loop_lesson3_fire:
  "at_poll x \<Longrightarrow> flag s = 0 \<Longrightarrow>
   loop_lesson3 x s = s\<lparr>DATA := read_DATA (after_delay x) s XOR 0x1FFFFFFF, flag := 1\<rparr>"
  by (simp add: loop_lesson3_def state_pressed mask_eq_exp_minus_1)

lemma loop_lesson3_latched:
  "at_poll x \<Longrightarrow> flag s \<noteq> 0 \<Longrightarrow> loop_lesson3 x s = s"
  by (simp add: loop_lesson3_def Let_def state_zero_iff)

lemma loop_lesson3_rest:
  "\<not> at_poll x \<Longrightarrow> loop_lesson3 x s = s\<lparr>flag := 0\<rparr>"
  by (simp add: loop_lesson3_def Let_def state_zero_iff)

lemma toggled_fire:
  "at_poll x \<Longrightarrow> flag s = 0 \<Longrightarrow> toggled s (loop_lesson3 x s)"
  by (simp add: loop_lesson3_fire toggled_def bit_xor_mask_pressed bit_read_DATA)

lemma flag_init_lesson3: "flag (init_lesson3 r) = 0"
  by (simp add: init_lesson3_def regs.defs lesson3.defs)

lemma DATA_init_lesson3: "DATA (init_lesson3 r) = DATA r"
  by (simp add: init_lesson3_def regs.defs lesson3.defs)

section \<open>Runs of LESSON3\<close>

lemma toggles_append:
  "toggles (xs @ ys) s = toggles xs s + toggles ys (run_lesson3 xs s)"
  by (induction xs arbitrary: s) simp_all

lemma run_lesson3_append:
  "run_lesson3 (xs @ ys) s = run_lesson3 ys (run_lesson3 xs s)"
  by (induction xs arbitrary: s) simp_all

text \<open>While the latch is set and the button stays down, nothing is written at all.\<close>

lemma toggles_latched:
  "flag s \<noteq> 0 \<Longrightarrow> \<forall>x \<in> set xs. at_poll x \<Longrightarrow>
   toggles xs s = 0 \<and> run_lesson3 xs s = s"
  by (induction xs) (simp_all add: loop_lesson3_latched toggled_def)

text \<open>A press seen with the latch clear: the first iteration toggles, the later ones do not.\<close>

lemma toggles_press:
  assumes "flag s = 0" and "xs \<noteq> []" and "\<forall>x \<in> set xs. at_poll x"
  shows "toggles xs s = 1 \<and> run_lesson3 xs s = loop_lesson3 (hd xs) s"
proof (cases xs)
  case Nil
  with assms show ?thesis by simp
next
  case (Cons x ys)
  with assms have x: "at_poll x" and ys: "\<forall>y \<in> set ys. at_poll y" by simp_all
  let ?s = "loop_lesson3 x s"
  from x assms(1) have "flag ?s \<noteq> 0" by (simp add: loop_lesson3_fire)
  then have "toggles ys ?s = 0 \<and> run_lesson3 ys ?s = ?s"
    using ys by (rule toggles_latched)
  with Cons x assms(1) show ?thesis by (simp add: toggled_fire)
qed

text \<open>Iterations that see the button at rest only clear the latch.\<close>

lemma toggles_rest:
  "\<forall>x \<in> set xs. \<not> at_poll x \<Longrightarrow>
   toggles xs s = 0 \<and> run_lesson3 xs s = (if xs = [] then s else s\<lparr>flag := 0\<rparr>)"
  by (induction xs arbitrary: s) (simp_all add: loop_lesson3_rest toggled_def)

section \<open>The debounce loop of LESSON3\<close>

text \<open>
  C1. Single-edge property. Take any run of the loop over one physical press: the latch
  is clear when the press begins, and in every iteration of the run the button is down
  at the poll and still down after the debounce delay, for any positive number of
  iterations. Then exactly one iteration of the run toggles PF1, the pin ends at the
  opposite level, the latch is set, and as long as the button stays down no further
  iteration toggles the pin.
\<close>

theorem single_edge:
  assumes "flag s = 0" and "xs \<noteq> []" and "\<forall>x \<in> set xs. held x"
    and "\<forall>y \<in> set ys. held y"
  shows "toggles xs s = 1
    \<and> bit (DATA (run_lesson3 xs s)) 1 = (\<not> bit (DATA s) 1)
    \<and> flag (run_lesson3 xs s) = 1
    \<and> toggles ys (run_lesson3 xs s) = 0"
proof -
  from assms(3) have down: "\<forall>x \<in> set xs. at_poll x" by (simp add: held_def)
  from assms(2) down have first: "at_poll (hd xs)" by simp
  from assms(1,2) down
  have once: "toggles xs s = 1 \<and> run_lesson3 xs s = loop_lesson3 (hd xs) s"
    by (rule toggles_press)
  from once first assms(1)
  have level: "bit (DATA (run_lesson3 xs s)) 1 = (\<not> bit (DATA s) 1)"
    by (simp add: loop_lesson3_fire bit_xor_mask_pressed bit_read_DATA)
  from once first assms(1) have latch: "flag (run_lesson3 xs s) = 1"
    by (simp add: loop_lesson3_fire)
  from assms(4) have "\<forall>y \<in> set ys. at_poll y" by (simp add: held_def)
  moreover from latch have "flag (run_lesson3 xs s) \<noteq> 0" by simp
  ultimately have "toggles ys (run_lesson3 xs s) = 0"
    using toggles_latched by blast
  with once level latch show ?thesis by simp
qed

text \<open>
  The single-edge property on the program as \<open>main\<close> sets it up: three iterations with
  the button down toggle PF1 once, two more toggle nothing.
\<close>

theorem single_edge_witness:
  "flag (init_lesson3 all_clear) = 0
   \<and> held \<lparr>at_poll = True, after_delay = True\<rparr>
   \<and> toggles [\<lparr>at_poll = True, after_delay = True\<rparr>, \<lparr>at_poll = True, after_delay = True\<rparr>,
        \<lparr>at_poll = True, after_delay = True\<rparr>] (init_lesson3 all_clear) = 1
   \<and> bit (DATA (run_lesson3 [\<lparr>at_poll = True, after_delay = True\<rparr>,
        \<lparr>at_poll = True, after_delay = True\<rparr>, \<lparr>at_poll = True, after_delay = True\<rparr>]
        (init_lesson3 all_clear))) 1
   \<and> toggles [\<lparr>at_poll = True, after_delay = True\<rparr>, \<lparr>at_poll = True, after_delay = True\<rparr>]
        (run_lesson3 [\<lparr>at_poll = True, after_delay = True\<rparr>,
          \<lparr>at_poll = True, after_delay = True\<rparr>, \<lparr>at_poll = True, after_delay = True\<rparr>]
          (init_lesson3 all_clear)) = 0"
proof -
  let ?h = "\<lparr>at_poll = True, after_delay = True\<rparr>"
  let ?s = "init_lesson3 all_clear"
  have f: "flag ?s = 0" by (rule flag_init_lesson3)
  have h: "held ?h" by (simp add: held_def)
  have d: "\<not> bit (DATA ?s) 1" by (simp add: DATA_init_lesson3 all_clear_def)
  have xs: "[?h, ?h, ?h] \<noteq> []" by simp
  have hx: "\<forall>x \<in> set [?h, ?h, ?h]. held x" using h by simp
  have hy: "\<forall>y \<in> set [?h, ?h]. held y" using h by simp
  from single_edge [OF f xs hx hy] d
  have "toggles [?h, ?h, ?h] ?s = 1
      \<and> bit (DATA (run_lesson3 [?h, ?h, ?h] ?s)) 1
      \<and> toggles [?h, ?h] (run_lesson3 [?h, ?h, ?h] ?s) = 0"
    by blast
  with f h show ?thesis by blast
qed

text \<open>
  C2. Bounce rejection by a re-sample. The loop calls the delay, but the test after the
  delay reads the variable \<open>state\<close> assigned before it: the input is not read again
  before the decision. With the button down at the poll and released by the end of the
  delay, on the program as \<open>main\<close> sets it up, the iteration toggles PF1 once and sets
  the latch, where the claim has no toggle and the latch unchanged. The value left in
  \<open>DATA\<close> shows the released button (bit 4 of the read was 1) next to the toggle.
\<close>

theorem bounce_not_rejected:
  "toggles [\<lparr>at_poll = True, after_delay = False\<rparr>] (init_lesson3 all_clear) = 1
   \<and> flag (loop_lesson3 \<lparr>at_poll = True, after_delay = False\<rparr> (init_lesson3 all_clear)) = 1
   \<and> DATA (loop_lesson3 \<lparr>at_poll = True, after_delay = False\<rparr> (init_lesson3 all_clear))
       = 0x1FFFFFEF"
proof -
  let ?x = "\<lparr>at_poll = True, after_delay = False\<rparr>"
  let ?s = "init_lesson3 all_clear"
  have x: "at_poll ?x" by simp
  have f: "flag ?s = 0" by (rule flag_init_lesson3)
  have "toggled ?s (loop_lesson3 ?x ?s)" using x f by (rule toggled_fire)
  then have "toggles [?x] ?s = 1" by simp
  moreover have "loop_lesson3 ?x ?s
      = ?s\<lparr>DATA := read_DATA (after_delay ?x) ?s XOR 0x1FFFFFFF, flag := 1\<rparr>"
    using x f by (rule loop_lesson3_fire)
  then have "flag (loop_lesson3 ?x ?s) = 1 \<and> DATA (loop_lesson3 ?x ?s) = 0x1FFFFFEF"
    by (simp add: read_DATA_def DATA_init_lesson3 all_clear_def)
  ultimately show ?thesis by simp
qed

text \<open>
  C3. Re-arm property. An iteration that sees the button at rest leaves the latch at 0,
  whatever the state before. So after a press (any positive number of iterations with
  the button down) and a release (any positive number with the button at rest) the
  latch is clear, a second press toggles PF1 exactly once, and the whole run of press,
  release and press has toggled it exactly twice.
\<close>

theorem rearm:
  assumes "flag s = 0"
    and "xs \<noteq> []" and "\<forall>x \<in> set xs. held x"
    and "ys \<noteq> []" and "\<forall>y \<in> set ys. at_rest y"
    and "zs \<noteq> []" and "\<forall>z \<in> set zs. held z"
  shows "flag (loop_lesson3 \<lparr>at_poll = False, after_delay = b\<rparr> s') = 0
    \<and> flag (run_lesson3 (xs @ ys) s) = 0
    \<and> toggles zs (run_lesson3 (xs @ ys) s) = 1
    \<and> toggles (xs @ ys @ zs) s = 2"
proof -
  let ?t = "run_lesson3 xs s"
  let ?u = "run_lesson3 (xs @ ys) s"
  from assms(3) have px: "\<forall>x \<in> set xs. at_poll x" by (simp add: held_def)
  from assms(5) have py: "\<forall>y \<in> set ys. \<not> at_poll y" by (simp add: at_rest_def)
  from assms(7) have pz: "\<forall>z \<in> set zs. at_poll z" by (simp add: held_def)
  have first: "toggles xs s = 1"
    using toggles_press [OF assms(1,2) px] by simp
  have rest: "toggles ys ?t = 0 \<and> run_lesson3 ys ?t = ?t\<lparr>flag := 0\<rparr>"
    using toggles_rest [OF py, of ?t] assms(4) by simp
  then have "?u = ?t\<lparr>flag := 0\<rparr>"
    by (simp add: run_lesson3_append)
  then have armed: "flag ?u = 0" by simp
  have second: "toggles zs ?u = 1"
    using toggles_press [OF armed assms(6) pz] by simp
  have "toggles (xs @ ys @ zs) s = toggles xs s + toggles ys ?t + toggles zs ?u"
    by (simp add: toggles_append run_lesson3_append)
  with first rest second have "toggles (xs @ ys @ zs) s = 2" by simp
  moreover have "flag (loop_lesson3 \<lparr>at_poll = False, after_delay = b\<rparr> s') = 0"
    by (simp add: loop_lesson3_rest)
  ultimately show ?thesis using armed second by simp
qed

text \<open>
  The re-arm property on the program as \<open>main\<close> sets it up: two iterations down, one
  at rest, two down.
\<close>

theorem rearm_witness:
  "flag (init_lesson3 all_clear) = 0
   \<and> held \<lparr>at_poll = True, after_delay = True\<rparr>
   \<and> at_rest \<lparr>at_poll = False, after_delay = False\<rparr>
   \<and> flag (run_lesson3 [\<lparr>at_poll = True, after_delay = True\<rparr>,
        \<lparr>at_poll = True, after_delay = True\<rparr>, \<lparr>at_poll = False, after_delay = False\<rparr>]
        (init_lesson3 all_clear)) = 0
   \<and> toggles [\<lparr>at_poll = True, after_delay = True\<rparr>, \<lparr>at_poll = True, after_delay = True\<rparr>,
        \<lparr>at_poll = False, after_delay = False\<rparr>,
        \<lparr>at_poll = True, after_delay = True\<rparr>, \<lparr>at_poll = True, after_delay = True\<rparr>]
        (init_lesson3 all_clear) = 2"
proof -
  let ?h = "\<lparr>at_poll = True, after_delay = True\<rparr>"
  let ?r = "\<lparr>at_poll = False, after_delay = False\<rparr>"
  let ?s = "init_lesson3 all_clear"
  have f: "flag ?s = 0" by (rule flag_init_lesson3)
  have h: "held ?h" by (simp add: held_def)
  have r: "at_rest ?r" by (simp add: at_rest_def)
  have ne: "[?h, ?h] \<noteq> []" by simp
  have hx: "\<forall>x \<in> set [?h, ?h]. held x" using h by simp
  have ny: "[?r] \<noteq> []" by simp
  have ry: "\<forall>y \<in> set [?r]. at_rest y" using r by simp
  from rearm [OF f ne hx ny ry ne hx]
  have "flag (run_lesson3 ([?h, ?h] @ [?r]) ?s) = 0
      \<and> toggles ([?h, ?h] @ [?r] @ [?h, ?h]) ?s = 2"
    by blast
  then have "flag (run_lesson3 [?h, ?h, ?r] ?s) = 0
      \<and> toggles [?h, ?h, ?r, ?h, ?h] ?s = 2"
    by (simp only: append.simps)
  with f h r show ?thesis by blast
qed






text \<open>
  C7, as the claim states it, fails: the debounce count is not 1000.
\<close>

theorem DELAY_DEBOUNCE_not_1000: "DELAY_DEBOUNCE \<noteq> 1000"
  by (simp add: DELAY_DEBOUNCE_def SYSTEM_CLOCK_FREQUENCY_def)

text \<open>
  C7, amended. The debounce count is \<open>SYSTEM_CLOCK_FREQUENCY/1000\<close>, which at the
  16 MHz system clock is 16000, and \<open>Delay(DELAY_DEBOUNCE)\<close> leaves its loop with the
  counter at 16000.
\<close>

theorem DELAY_DEBOUNCE_value:
  "DELAY_DEBOUNCE = SYSTEM_CLOCK_FREQUENCY div 1000
   \<and> SYSTEM_CLOCK_FREQUENCY = 16000000
   \<and> DELAY_DEBOUNCE = 16000
   \<and> Delay (word_of_int DELAY_DEBOUNCE) = 16000"
  by (simp add: DELAY_DEBOUNCE_def SYSTEM_CLOCK_FREQUENCY_def Delay_def Delay_loop_exit)

section \<open>The SysTick interrupt handler of LESSON6\<close>

lemma DATA_handler_funpow:
  "bit (DATA ((SysTick_Handler ^^ N) r)) 3 = (bit (DATA r) 3 \<noteq> (N mod 2 = 1))"
proof (induction N)
  case 0
  show ?case by simp
next
  case (Suc N)
  have "bit (DATA ((SysTick_Handler ^^ Suc N) r)) 3
      = (\<not> bit (DATA ((SysTick_Handler ^^ N) r)) 3)"
    by (simp add: SysTick_Handler_def bit_xor_8)
  with Suc show ?case by (simp add: mod_Suc)
qed

text \<open>
  C4. Interrupt-mode parity. For every \<open>N\<close> and every state of the registers, after
  \<open>N\<close> invocations of \<open>SysTick_Handler\<close> the level of PF3 is its initial level XOR
  (\<open>N mod 2 = 1\<close>); two invocations give back the state they started from. The reload
  value \<open>main\<close> writes makes one period 16,000,000 ticks.
\<close>

theorem interrupt_parity:
  "bit (DATA ((SysTick_Handler ^^ N) r)) 3 = (bit (DATA r) 3 \<noteq> (N mod 2 = 1))
   \<and> (SysTick_Handler ^^ 2) r = r
   \<and> unat (LOAD (init_lesson6 r)) + 1 = 16000000"
proof -
  have "(SysTick_Handler ^^ 2) r = r"
    by (simp add: numeral_2_eq_2 SysTick_Handler_def xor_8_twice)
  moreover have "unat (LOAD (init_lesson6 r)) + 1 = 16000000"
    by (simp add: init_lesson6_def)
  ultimately show ?thesis using DATA_handler_funpow by simp
qed

text \<open>
  C9. Frame of the interrupt handler. One invocation of \<open>SysTick_Handler\<close> stores
  \<open>DATA XOR 8\<close>: bit 3 of \<open>DATA\<close> is inverted, every other bit of \<open>DATA\<close> keeps its
  value, and putting the old \<open>DATA\<close> back gives the state before the call, so no other
  register has changed.
\<close>

theorem handler_frame:
  "bit (DATA (SysTick_Handler r)) n = (if n = 3 then \<not> bit (DATA r) 3 else bit (DATA r) n)
   \<and> DATA (SysTick_Handler r) = DATA r XOR 8
   \<and> (SysTick_Handler r)\<lparr>DATA := DATA r\<rparr> = r"
  by (simp add: SysTick_Handler_def bit_xor_8)

section \<open>The input-polling loop of LESSON2\<close>

text \<open>
  C10. Every iteration of LESSON2 stores \<open>(~(DATA & 0x10)) >> 3\<close> in \<open>DATA\<close>. After the
  iteration bit 1 (the red LED) is 1 exactly when bit 4 of the read (the button) was 0;
  the stored word is \<open>0x1FFFFFFF\<close> or \<open>0x1FFFFFFD\<close> and depends on nothing but that bit:
  whatever \<open>DATA\<close> held before is replaced, not preserved.
\<close>

theorem lesson2_overwrites:
  "DATA (loop_lesson2 sw1 r) = drop_bit 3 (NOT (read_DATA sw1 r AND 0x10))
   \<and> bit (DATA (loop_lesson2 sw1 r)) 1 = (\<not> bit (read_DATA sw1 r) 4)
   \<and> DATA (loop_lesson2 sw1 r) = (if bit (read_DATA sw1 r) 4 then 0x1FFFFFFD else 0x1FFFFFFF)
   \<and> DATA (loop_lesson2 sw1 (r\<lparr>DATA := d\<rparr>)) = DATA (loop_lesson2 sw1 r)"
proof -
  have 1: "DATA (loop_lesson2 sw1 r) = drop_bit 3 (NOT (read_DATA sw1 r AND 0x10))" for r
    by (simp add: loop_lesson2_def Let_def)
  have 2: "drop_bit 3 (NOT (read_DATA sw1 r AND 0x10))
      = (if sw1 then 0x1FFFFFFF else 0x1FFFFFFD)" for r :: regs
  proof (cases sw1)
    case True
    then show ?thesis by (simp only: state_pressed mask_pressed if_True)
  next
    case False
    then show ?thesis by (simp only: state_released mask_released if_False)
  qed
  have 3: "bit (read_DATA sw1 r) 4 = (\<not> sw1)" by (simp add: bit_read_DATA)
  have 4: "bit (if sw1 then 0x1FFFFFFF else 0x1FFFFFFD :: u32) 1 = sw1" by simp
  show ?thesis
    by (simp only: 1 2 3 4) simp
qed

section \<open>The polled loop of LESSON5\<close>

lemma elapsed_iff: "elapsed r = bit (CTRL r) 16"
proof -
  have "CTRL r AND 0x10000 = CTRL r AND 2 ^ 16" by simp
  also have "\<dots> = 0 \<longleftrightarrow> \<not> bit (CTRL r) 16"
    by (simp only: and_exp_eq_0_iff_not_bit)
  finally show ?thesis by (simp add: elapsed_def read_CTRL_def)
qed

lemma bit16_period_ends: "bit (CTRL (period_ends r)) 16"
proof -
  have "CTRL (period_ends r) = CTRL r OR 2 ^ 16" by (simp add: period_ends_def)
  then show ?thesis by (simp only: bit_or_iff bit_exp_iff) simp
qed

lemma bit16_loop_lesson5: "\<not> bit (CTRL (loop_lesson5 r)) 16"
proof -
  have "CTRL (loop_lesson5 r) = CTRL r AND NOT (2 ^ 16)"
    by (simp add: loop_lesson5_def read_CTRL_def)
  then show ?thesis by (simp only: bit_and_iff bit_not_iff bit_exp_iff) simp
qed

lemma DATA_period_ends: "DATA (period_ends r) = DATA r"
  by (simp add: period_ends_def)

lemma DATA_loop_lesson5:
  "bit (DATA (loop_lesson5 r)) 3 = (bit (DATA r) 3 \<noteq> elapsed r)"
  by (simp add: loop_lesson5_def read_CTRL_def elapsed_def bit_xor_8)

text \<open>
  C5. Polled mode, exactly once per period. Take any run of the polled program in which
  every end of a period is followed by an iteration of the loop before the next period
  ends, started with the status bit clear; between two periods the loop may iterate any
  number of times. Then the elapsed check is true in exactly as many iterations as
  periods have ended: no completion is seen twice and none is missed. PF3 has been
  toggled once for each of them.
\<close>

theorem polled_once_per_period:
  "paced es \<Longrightarrow> \<not> bit (CTRL r) 16 \<Longrightarrow>
   observed es r = count_list es Period
   \<and> bit (DATA (run_lesson5 es r)) 3
       = (bit (DATA r) 3 \<noteq> (count_list es Period mod 2 = 1))"
proof (induction es arbitrary: r rule: paced.induct)
  case (2 es)
  then show ?case
    by (simp add: elapsed_iff bit16_loop_lesson5 DATA_loop_lesson5)
next
  case (3 es)
  let ?r = "loop_lesson5 (period_ends r)"
  from 3 have ih: "observed es ?r = count_list es Period
      \<and> bit (DATA (run_lesson5 es ?r)) 3
          = (bit (DATA ?r) 3 \<noteq> (count_list es Period mod 2 = 1))"
    by (simp add: bit16_loop_lesson5)
  have "bit (DATA ?r) 3 = (\<not> bit (DATA r) 3)"
    by (simp add: DATA_loop_lesson5 elapsed_iff bit16_period_ends DATA_period_ends)
  with ih show ?case
    by (simp add: elapsed_iff bit16_period_ends mod_Suc)
qed simp_all

text \<open>
  The polled program as \<open>main\<close> sets it up, over two periods with one, then two
  iterations per period and an iteration before the first.
\<close>

theorem polled_once_per_period_witness:
  "paced [Poll, Period, Poll, Period, Poll, Poll]
   \<and> \<not> bit (CTRL (init_lesson5 all_clear)) 16
   \<and> observed [Poll, Period, Poll, Period, Poll, Poll] (init_lesson5 all_clear) = 2
   \<and> \<not> bit (DATA (run_lesson5 [Poll, Period, Poll, Period, Poll, Poll]
        (init_lesson5 all_clear))) 3"
proof -
  let ?es = "[Poll, Period, Poll, Period, Poll, Poll]"
  let ?r = "init_lesson5 all_clear"
  have p: "paced ?es" by simp
  have c: "\<not> bit (CTRL ?r) 16" by (simp add: init_lesson5_def)
  have d: "\<not> bit (DATA ?r) 3" by (simp add: init_lesson5_def all_clear_def)
  have n: "count_list ?es Period = 2" by simp
  from polled_once_per_period [OF p c]
  have "observed ?es ?r = 2 \<and> \<not> bit (DATA (run_lesson5 ?es ?r)) 3"
    by (simp only: n d) simp
  with p c show ?thesis by blast
qed

end
